theory Spec2Isabelle
  imports Main "HOL-Library.AList"
begin

section \<open>Queued objects, tapes and the queuing context\<close>

text \<open>
  The transforms of \<^verbatim>\<open>pennylane/transforms/decorators.py\<close> act on the queuing context
  of the library: a stack of recording scopes (tapes) to which operations add themselves when
  they are instantiated. The classes \<^verbatim>\<open>QueuingContext\<close>, \<^verbatim>\<open>AnnotatedQueue\<close> and
  \<^verbatim>\<open>QuantumTape\<close> are used by the transforms but defined elsewhere in the library; the
  definitions of this section that embed them say so.

  Python objects are compared by identity. An operation or measurement object carries its
  identity (a number) and its name; a tape object that was queued into another tape is
  referred to by its identity.
\<close>

datatype error =
    ValueError string
  | NameError string
  | UnboundLocalError string
  | TypeError string
  | IndexError string
  | AttributeError string
  | RaisedByUser string

datatype operator = Operation nat string | Measurement nat string

datatype qobj = Op operator | TapeObj nat

type_synonym info = "(string \<times> string) list"

text \<open>
  The \<^verbatim>\<open>_queue\<close> of an annotated queue is an ordered dictionary from objects to their
  keyword annotations: assigning to a key that is present keeps its position, a new key goes
  to the end. That is \<^const>\<open>AList.update\<close> on an association list.
\<close>

type_synonym annotated_queue = "(qobj \<times> info) list"

record tape =
  ident :: nat
  cls :: string
  non_queuing :: bool
  queue :: annotated_queue
  recording :: bool
  operations :: "operator list"
  measurements :: "operator list"

text \<open>
  The state of the program: the stack of active queuing contexts (the head of the list is
  the active one), the identity the next created tape receives, and the tapes that were
  executed on a device so far, with the name of the device.
\<close>

record state =
  active_contexts :: "tape list"
  next_ident :: nat
  executed :: "(string \<times> tape) list"

type_synonym 'x outcome = "(error + 'x) \<times> state"

text \<open>
  Modelled from the spec: \<^verbatim>\<open>QueuingContext.append(obj, **info)\<close> and
  \<^verbatim>\<open>QueuingContext.remove(obj)\<close>, which are not part of the files under study. The
  spec (sections 3 and 6): an object registers itself with the top-of-stack scope unless
  that scope has been told to stop recording; with an empty stack nothing happens.
\<close>

definition QueuingContext_append :: "qobj \<Rightarrow> info \<Rightarrow> state \<Rightarrow> state" where
  "QueuingContext_append obj kw s =
     (case active_contexts s of
        [] \<Rightarrow> s
      | t # ts \<Rightarrow>
          if recording t
          then s\<lparr>active_contexts := t\<lparr>queue := AList.update obj kw (queue t)\<rparr> # ts\<rparr>
          else s)"

definition QueuingContext_remove :: "qobj \<Rightarrow> state \<Rightarrow> state" where
  "QueuingContext_remove obj s =
     (case active_contexts s of
        [] \<Rightarrow> s
      | t # ts \<Rightarrow>
          if recording t
          then s\<lparr>active_contexts := t\<lparr>queue := AList.delete obj (queue t)\<rparr> # ts\<rparr>
          else s)"

text \<open>
  Modelled from the spec: \<^verbatim>\<open>qml.tape.get_active_tape()\<close>, the scope on top of the stack
  or \<^verbatim>\<open>None\<close>.
\<close>

definition get_active_tape :: "state \<Rightarrow> tape option" where
  "get_active_tape s = (case active_contexts s of [] \<Rightarrow> None | t # _ \<Rightarrow> Some t)"

text \<open>
  Modelled from the spec: the constructor of a tape class. The new tape object has a fresh
  identity, an empty queue and records. The flag \<^const>\<open>non_queuing\<close> says whether
  \<^verbatim>\<open>NonQueuingTape\<close> is among the bases of the object's class.
\<close>

definition new_tape :: "string \<Rightarrow> bool \<Rightarrow> state \<Rightarrow> tape \<times> state" where
  "new_tape c nq s =
     (\<lparr>ident = next_ident s, cls = c, non_queuing = nq, queue = [], recording = True,
       operations = [], measurements = []\<rparr>,
      s\<lparr>next_ident := Suc (next_ident s)\<rparr>)"

text \<open>
  Modelled from the spec: the \<^verbatim>\<open>_process_queue\<close> of the tape class itself, reached by
  \<^verbatim>\<open>super()._process_queue()\<close>. It sorts the queued objects into the operations and the
  measurements of the tape, in queue order.
\<close>

fun queued_operations :: "annotated_queue \<Rightarrow> operator list" where
  "queued_operations [] = []"
| "queued_operations ((Op (Operation i n), _) # q) = Operation i n # queued_operations q"
| "queued_operations (_ # q) = queued_operations q"

fun queued_measurements :: "annotated_queue \<Rightarrow> operator list" where
  "queued_measurements [] = []"
| "queued_measurements ((Op (Measurement i n), _) # q) = Measurement i n # queued_measurements q"
| "queued_measurements (_ # q) = queued_measurements q"

definition super_process_queue :: "tape \<Rightarrow> tape" where
  "super_process_queue t =
     t\<lparr>operations := queued_operations (queue t), measurements := queued_measurements (queue t)\<rparr>"

subsection \<open>The non-queuing tape\<close>

text \<open>
  \<^verbatim>\<open>NonQueuingTape._process_queue\<close>: after the processing of the tape class, every entry
  of the tape's queue is appended to the queuing context, and the tape itself is removed from
  the queuing context.
\<close>

fun forward_queue :: "annotated_queue \<Rightarrow> state \<Rightarrow> state" where
  "forward_queue [] s = s"
| "forward_queue ((obj, kw) # q) s = forward_queue q (QueuingContext_append obj kw s)"

definition NonQueuingTape_process_queue :: "tape \<Rightarrow> state \<Rightarrow> tape \<times> state" where
  "NonQueuingTape_process_queue t s =
     (let t' = super_process_queue t;
          s' = forward_queue (queue t') s
      in (t', QueuingContext_remove (TapeObj (ident t')) s'))"

definition process_queue :: "tape \<Rightarrow> state \<Rightarrow> tape \<times> state" where
  "process_queue t s =
     (if non_queuing t then NonQueuingTape_process_queue t s else (super_process_queue t, s))"

text \<open>
  Modelled from the spec: entering and leaving a tape used as a \<^verbatim>\<open>with\<close> scope. On
  entry the tape queues itself to the current queuing context (the nested tape that the
  docstring of \<^verbatim>\<open>NonQueuingTape\<close> and the comment in
  \<^verbatim>\<open>single_tape_transform.__call__\<close> speak of) and is pushed on the stack; on exit it
  is popped and its queue is processed, so that what a non-queuing tape forwards reaches the
  scope that was active before it.
\<close>

definition tape_enter :: "tape \<Rightarrow> state \<Rightarrow> state" where
  "tape_enter t s =
     (let s' = QueuingContext_append (TapeObj (ident t)) [] s
      in s'\<lparr>active_contexts := t # active_contexts s'\<rparr>)"

definition tape_exit :: "state \<Rightarrow> tape outcome" where
  "tape_exit s =
     (case active_contexts s of
        [] \<Rightarrow> (Inl (IndexError ''pop from an empty deque''), s)
      | t # ts \<Rightarrow>
          (let (t', s') = process_queue t (s\<lparr>active_contexts := ts\<rparr>) in (Inr t', s')))"

text \<open>
  The statement \<^verbatim>\<open>with T() as tape: body\<close>: the exit runs whether the body returns or
  raises; an error of the body propagates after the exit.
\<close>

definition with_tape :: "tape \<Rightarrow> (state \<Rightarrow> unit outcome) \<Rightarrow> state \<Rightarrow> tape outcome" where
  "with_tape t body s =
     (let (r, s1) = body (tape_enter t s);
          (x, s2) = tape_exit s1
      in (case r of Inl e \<Rightarrow> (Inl e, s2) | Inr _ \<Rightarrow> (x, s2)))"

text \<open>
  Modelled from the spec: \<^verbatim>\<open>active_tape.stop_recording()\<close>, a scoped toggle. The active
  scope is told to stop recording on entry and its recording is resumed on exit.
\<close>

definition set_recording :: "bool \<Rightarrow> state \<Rightarrow> state" where
  "set_recording b s =
     (case active_contexts s of
        [] \<Rightarrow> s
      | t # ts \<Rightarrow> s\<lparr>active_contexts := t\<lparr>recording := b\<rparr> # ts\<rparr>)"

definition stop_recording_enter :: "state \<Rightarrow> state" where
  "stop_recording_enter = set_recording False"

definition stop_recording_exit :: "state \<Rightarrow> state" where
  "stop_recording_exit = set_recording True"

section \<open>Quantum functions and transform bodies\<close>

text \<open>
  A quantum function, and the body of a tape transform, act on the program only through the
  queuing context: run on given arguments they instantiate or re-queue operations and
  measurements, one after the other, and may raise. Such a function is given by the
  statements it runs on its arguments.
\<close>

datatype stmt = Queue operator info | Raise string

fun run :: "stmt list \<Rightarrow> state \<Rightarrow> unit outcome" where
  "run [] s = (Inr (), s)"
| "run (Queue ob kw # ss) s = run ss (QueuingContext_append (Op ob) kw s)"
| "run (Raise msg # ss) s = (Inl (RaisedByUser msg), s)"

type_synonym 'v qfunc = "'v list \<Rightarrow> stmt list"

section \<open>make\_tape\<close>

text \<open>
  The function returned by \<^verbatim>\<open>make_tape(fn)\<close>, applied to arguments. With an active tape:
  \<^verbatim>\<open>with active_tape.stop_recording(), active_tape.__class__() as tape: fn(*args)\<close>;
  the inner scope is left first, then the recording of the active tape is resumed.
\<close>

definition make_tape :: "'v qfunc \<Rightarrow> 'v list \<Rightarrow> state \<Rightarrow> tape outcome" where
  "make_tape fn args s =
     (case get_active_tape s of
        Some active_tape \<Rightarrow>
          (let s1 = stop_recording_enter s;
               (t, s2) = new_tape (cls active_tape) (non_queuing active_tape) s1;
               (r, s3) = with_tape t (run (fn args)) s2
           in (r, stop_recording_exit s3))
      | None \<Rightarrow>
          (let (t, s1) = new_tape ''QuantumTape'' False s
           in with_tape t (run (fn args)) s1))"

section \<open>Single-tape transforms\<close>

text \<open>
  The return annotation that \<^verbatim>\<open>inspect.signature\<close> reports for a function: absent
  (\<^verbatim>\<open>inspect._empty\<close>), one of the five types that the module lists, or any other.
\<close>

datatype annotation =
    Empty_annotation
  | QuantumTape_annotation
  | List_QuantumTape
  | Tuple_QuantumTape_None
  | Tuple_List_QuantumTape_None
  | Tuple_List_QuantumTape_Callable
  | Other_annotation string

text \<open>
  A Python function registered as tape transform: the number of parameters and the return
  annotation of its signature, and its body, which receives the input tape and the further
  arguments. An object handed to the registration is such a function or is not callable.
\<close>

record 'v tape_function =
  tf_params :: nat
  tf_annotation :: annotation
  tf_body :: "tape \<Rightarrow> 'v list \<Rightarrow> stmt list"

datatype 'v transform_arg = Tape_function "'v tape_function" | Not_callable string

record 'v single_tape_transform =
  transform_fn :: "'v tape_function"

text \<open>\<^verbatim>\<open>single_tape_transform.__init__\<close>.\<close>

definition single_tape_transform_init ::
  "'v transform_arg \<Rightarrow> error + 'v single_tape_transform" where
  "single_tape_transform_init a =
     (case a of
        Not_callable d \<Rightarrow>
          Inl (ValueError (''The tape transform function to register, '' @ d @
                 '', does not appear to be a valid Python function or callable.''))
      | Tape_function f \<Rightarrow> Inr \<lparr>transform_fn = f\<rparr>)"

text \<open>
  \<^verbatim>\<open>single_tape_transform.__call__\<close>: the new tape is an instance of a class made of
  \<^verbatim>\<open>NonQueuingTape\<close> and the class of the input tape; the body runs inside it; afterwards
  the class of the new tape is set back to the class of the input tape.
\<close>

definition single_tape_transform_call ::
  "'v single_tape_transform \<Rightarrow> tape \<Rightarrow> 'v list \<Rightarrow> state \<Rightarrow> tape outcome" where
  "single_tape_transform_call self tp args s =
     (let (new_tp, s1) = new_tape (cls tp) True s;
          (r, s2) = with_tape new_tp (run (tf_body (transform_fn self) tp args)) s1
      in (case r of
            Inl e \<Rightarrow> (Inl e, s2)
          | Inr t \<Rightarrow> (Inr (t\<lparr>non_queuing := False\<rparr>), s2)))"

section \<open>What a body queues\<close>

text \<open>
  The queue that a body leaves when it runs on a scope that records and whose queue is
  \<open>q\<close>, the way the body ends, and the result of forwarding the entries of one queue to
  another, in order.
\<close>

fun run_queue :: "stmt list \<Rightarrow> annotated_queue \<Rightarrow> annotated_queue" where
  "run_queue [] q = q"
| "run_queue (Queue ob kw # ss) q = run_queue ss (AList.update (Op ob) kw q)"
| "run_queue (Raise msg # ss) q = q"

fun run_result :: "stmt list \<Rightarrow> error + unit" where
  "run_result [] = Inr ()"
| "run_result (Queue ob kw # ss) = run_result ss"
| "run_result (Raise msg # ss) = Inl (RaisedByUser msg)"

fun queued_by :: "stmt list \<Rightarrow> operator list" where
  "queued_by [] = []"
| "queued_by (Queue ob kw # ss) = ob # queued_by ss"
| "queued_by (Raise msg # ss) = []"

fun forward_into :: "annotated_queue \<Rightarrow> annotated_queue \<Rightarrow> annotated_queue" where
  "forward_into [] q = q"
| "forward_into ((obj, kw) # es) q = forward_into es (AList.update obj kw q)"

section \<open>qfunc\_transform\<close>

text \<open>
  The object handed to \<^verbatim>\<open>qfunc_transform\<close> is an instance of
  \<^verbatim>\<open>single_tape_transform\<close> or some other object; the object that the resulting
  decorator is applied to is a quantum function or is not callable.
\<close>

datatype 'v registrable = Registered "'v single_tape_transform" | Unregistered "'v transform_arg"

datatype 'v qfunc_arg = Quantum_function "'v qfunc" | Not_a_function string

type_synonym 'v wrapped_qfunc = "'v list \<Rightarrow> state \<Rightarrow> operator list outcome"

type_synonym 'v qfunc_decorator = "'v qfunc_arg \<Rightarrow> error + 'v wrapped_qfunc"

datatype 'v qfunc_transformer =
    Decorator "'v qfunc_decorator"
  | Decorator_factory "'v list \<Rightarrow> 'v qfunc_decorator"

text \<open>
  The \<^verbatim>\<open>internal_wrapper\<close> of both branches; the branch for one parameter calls the tape
  transform with no further arguments. Keyword arguments are part of the argument list.
\<close>

definition qfunc_internal_wrapper ::
  "'v single_tape_transform \<Rightarrow> 'v list \<Rightarrow> 'v qfunc \<Rightarrow> 'v wrapped_qfunc" where
  "qfunc_internal_wrapper tape_transform targs fn args s =
     (case make_tape fn args s of
        (Inl e, s1) \<Rightarrow> (Inl e, s1)
      | (Inr tp, s1) \<Rightarrow>
          (case single_tape_transform_call tape_transform tp targs s1 of
             (Inl e, s2) \<Rightarrow> (Inl e, s2)
           | (Inr tp', s2) \<Rightarrow> (Inr (measurements tp'), s2)))"

definition qfunc_wrapper :: "'v single_tape_transform \<Rightarrow> 'v list \<Rightarrow> 'v qfunc_decorator" where
  "qfunc_wrapper tape_transform targs fn =
     (case fn of
        Not_a_function d \<Rightarrow>
          Inl (ValueError (''The qfunc to transform, '' @ d @
                 '', does not appear to be a valid Python function or callable.''))
      | Quantum_function f \<Rightarrow> Inr (qfunc_internal_wrapper tape_transform targs f))"

text \<open>
  \<^verbatim>\<open>qfunc_transform\<close>. Its first test asks whether the class
  \<^verbatim>\<open>single_tape_transform\<close> is callable, which a class always is. The signature of a
  registered transform is the signature of the function it wraps. With no parameter neither
  branch binds \<^verbatim>\<open>make_qfunc_transform\<close>. The result carries the registered transform
  as its attribute \<^verbatim>\<open>tape_fn\<close>.
\<close>

definition class_single_tape_transform_callable :: bool where
  "class_single_tape_transform_callable = True"

definition qfunc_transform ::
  "'v registrable \<Rightarrow> error + ('v qfunc_transformer \<times> 'v single_tape_transform)" where
  "qfunc_transform tape_transform =
     (if \<not> class_single_tape_transform_callable
      then Inl (ValueError (''The qfunc_transform decorator can only be applied '' @
                  ''to single tape transform functions.''))
      else
        (case (case tape_transform of
                 Registered t \<Rightarrow> Inr t
               | Unregistered a \<Rightarrow> single_tape_transform_init a) of
           Inl e \<Rightarrow> Inl e
         | Inr t \<Rightarrow>
             (let params = tf_params (transform_fn t)
              in if params > 1 then Inr (Decorator_factory (\<lambda>targs. qfunc_wrapper t targs), t)
                 else if params = 1 then Inr (Decorator (qfunc_wrapper t []), t)
                 else Inl (UnboundLocalError ''make_qfunc_transform''))))"

section \<open>qnode\_transform\<close>

definition AUTO_EXECUTE_NO_PROCESSING :: "annotation list" where
  "AUTO_EXECUTE_NO_PROCESSING =
     [QuantumTape_annotation, List_QuantumTape, Tuple_QuantumTape_None,
      Tuple_List_QuantumTape_None]"

definition AUTO_EXECUTE_PROCESSING :: "annotation list" where
  "AUTO_EXECUTE_PROCESSING = [Empty_annotation, Tuple_List_QuantumTape_Callable]"

definition AUTO_EXECUTE :: "annotation list" where
  "AUTO_EXECUTE = AUTO_EXECUTE_PROCESSING @ AUTO_EXECUTE_NO_PROCESSING"

text \<open>
  The names bound at module level in \<^verbatim>\<open>decorators.py\<close>: its imports
  (\<^verbatim>\<open>functools\<close>, \<^verbatim>\<open>inspect\<close>, \<^verbatim>\<open>Tuple\<close>, \<^verbatim>\<open>List\<close>, \<^verbatim>\<open>Callable\<close> from
  \<^verbatim>\<open>typing\<close>, \<^verbatim>\<open>qml\<close>) and its own definitions. A name that is neither bound here
  nor built in raises a \<^verbatim>\<open>NameError\<close> where it is evaluated.
\<close>

definition module_names :: "string list" where
  "module_names =
     [''functools'', ''inspect'', ''Tuple'', ''List'', ''Callable'', ''qml'',
      ''AUTO_EXECUTE_NO_PROCESSING'', ''AUTO_EXECUTE_PROCESSING'', ''AUTO_EXECUTE'',
      ''make_tape'', ''NonQueuingTape'', ''single_tape_transform'', ''qfunc_transform'',
      ''qnode_transform'']"

text \<open>
  A device executes a tape and gives a result or raises. A QNode binds a quantum function,
  a device and an interface, and holds the tape it constructed last.
\<close>

record 'r device =
  dev_name :: string
  dev_execute :: "tape \<Rightarrow> error + 'r"

record ('v, 'r) qnode =
  func :: "'v qfunc"
  device :: "'r device"
  interface :: string
  qtape :: "tape option"

datatype ('v, 'r) decorated = QNode_object "('v, 'r) qnode" | Not_a_QNode string

text \<open>
  The values that a QNode transform returns and that the decorated QNode returns: tapes,
  lists and tuples, \<^verbatim>\<open>None\<close>, results of executions, processing functions (applied to
  the list of results), and other objects.
\<close>

datatype 'r pyval =
    PNone
  | PTape tape
  | PList "'r pyval list"
  | PTuple "'r pyval list"
  | PResult 'r
  | PFunction "'r list \<Rightarrow> error + 'r pyval"
  | PObject string

text \<open>
  A Python function registered as QNode transform: its signature and its body. The body
  receives a first argument (the tape of the QNode, which is \<^verbatim>\<open>None\<close> before the first
  construction, or the QNode) and the further arguments.
\<close>

datatype ('v, 'r) first_argument =
    Tape_argument tape
  | None_argument
  | QNode_argument "('v, 'r) qnode"

record ('v, 'r) qnode_function =
  qf_params :: nat
  qf_annotation :: annotation
  qf_body :: "('v, 'r) first_argument \<Rightarrow> 'v list \<Rightarrow> state \<Rightarrow> 'r pyval outcome"

datatype ('v, 'r) qnode_transform_arg =
    QNode_function "('v, 'r) qnode_function"
  | Single_tape "'v single_tape_transform"
  | Not_callable_object string

text \<open>
  \<^verbatim>\<open>inspect.signature\<close> follows the \<^verbatim>\<open>__wrapped__\<close> attribute that
  \<^verbatim>\<open>functools.update_wrapper\<close> sets, so that the signature of a registered single-tape
  transform is the signature of the function it wraps.
\<close>

definition signature :: "('v, 'r) qnode_transform_arg \<Rightarrow> error + nat \<times> annotation" where
  "signature f =
     (case f of
        QNode_function g \<Rightarrow> Inr (qf_params g, qf_annotation g)
      | Single_tape t \<Rightarrow> Inr (tf_params (transform_fn t), tf_annotation (transform_fn t))
      | Not_callable_object d \<Rightarrow> Inl (TypeError (d @ '' is not a callable object'')))"

text \<open>Calling the registered object with a first argument and the further arguments.\<close>

definition call_transform ::
  "('v, 'r) qnode_transform_arg \<Rightarrow> ('v, 'r) first_argument \<Rightarrow> 'v list \<Rightarrow> state
     \<Rightarrow> 'r pyval outcome" where
  "call_transform f x targs s =
     (case f of
        QNode_function g \<Rightarrow> qf_body g x targs s
      | Single_tape t \<Rightarrow>
          (case x of
             Tape_argument tp \<Rightarrow>
               (case single_tape_transform_call t tp targs s of
                  (Inl e, s1) \<Rightarrow> (Inl e, s1)
                | (Inr new_tp, s1) \<Rightarrow> (Inr (PTape new_tp), s1))
           | _ \<Rightarrow> (Inl (TypeError ''cannot create the tape class''), s))
      | Not_callable_object d \<Rightarrow> (Inl (TypeError (d @ '' object is not callable'')), s))"

text \<open>
  Modelled from the spec: \<^verbatim>\<open>qnode.construct(args, kwargs)\<close>, which rebuilds the tape of
  the QNode by running its quantum function on the arguments inside a new tape.
\<close>

definition construct ::
  "('v, 'r) qnode \<Rightarrow> 'v list \<Rightarrow> state \<Rightarrow> (error + ('v, 'r) qnode) \<times> state" where
  "construct qn args s =
     (let (t, s1) = new_tape ''QuantumTape'' False s;
          (r, s2) = with_tape t (run (func qn args)) s1
      in (case r of
            Inl e \<Rightarrow> (Inl e, s2)
          | Inr t' \<Rightarrow> (Inr (qn\<lparr>qtape := Some t'\<rparr>), s2)))"

definition tape_argument :: "('v, 'r) qnode \<Rightarrow> ('v, 'r) first_argument" where
  "tape_argument qn = (case qtape qn of None \<Rightarrow> None_argument | Some t \<Rightarrow> Tape_argument t)"

text \<open>
  Modelled from the spec: \<^verbatim>\<open>t.execute(device=qnode.device)\<close>. The tape is handed to
  the device, which is recorded in the state, and the device answers.
\<close>

definition execute :: "'r device \<Rightarrow> tape \<Rightarrow> state \<Rightarrow> 'r outcome" where
  "execute dev t s = (dev_execute dev t, s\<lparr>executed := executed s @ [(dev_name dev, t)]\<rparr>)"

text \<open>The comprehension \<^verbatim>\<open>[t.execute(device=qnode.device) for t in tapes]\<close>.\<close>

fun execute_each :: "'r device \<Rightarrow> 'r pyval list \<Rightarrow> state \<Rightarrow> 'r list outcome" where
  "execute_each dev [] s = (Inr [], s)"
| "execute_each dev (PTape t # xs) s =
     (case execute dev t s of
        (Inl e, s1) \<Rightarrow> (Inl e, s1)
      | (Inr r, s1) \<Rightarrow>
          (case execute_each dev xs s1 of
             (Inl e, s2) \<Rightarrow> (Inl e, s2)
           | (Inr rs, s2) \<Rightarrow> (Inr (r # rs), s2)))"
| "execute_each dev (_ # xs) s = (Inl (AttributeError ''execute''), s)"

definition execute_all :: "'r device \<Rightarrow> 'r pyval \<Rightarrow> state \<Rightarrow> 'r list outcome" where
  "execute_all dev tapes s =
     (case tapes of
        PList xs \<Rightarrow> execute_each dev xs s
      | PTuple xs \<Rightarrow> execute_each dev xs s
      | _ \<Rightarrow> (Inl (TypeError ''object is not iterable''), s))"

text \<open>The unpacking \<^verbatim>\<open>tapes, fn = ...\<close> and the call \<^verbatim>\<open>fn(res)\<close>.\<close>

definition unpack_pair :: "'r pyval \<Rightarrow> error + 'r pyval \<times> 'r pyval" where
  "unpack_pair v =
     (case v of
        PTuple [a, b] \<Rightarrow> Inr (a, b)
      | PList [a, b] \<Rightarrow> Inr (a, b)
      | PTuple _ \<Rightarrow> Inl (ValueError ''wrong number of values to unpack'')
      | PList _ \<Rightarrow> Inl (ValueError ''wrong number of values to unpack'')
      | _ \<Rightarrow> Inl (TypeError ''cannot unpack non-iterable object''))"

definition apply_fn :: "'r pyval \<Rightarrow> 'r list \<Rightarrow> error + 'r pyval" where
  "apply_fn fn res =
     (case fn of
        PFunction g \<Rightarrow> g res
      | _ \<Rightarrow> Inl (TypeError ''object is not callable''))"

text \<open>
  The test \<^verbatim>\<open>isinstance(tapes, tuple) and tapes[-1] is None\<close> with the assignment
  \<^verbatim>\<open>tapes = tapes[0]\<close> that it guards.
\<close>

definition strip_none :: "'r pyval \<Rightarrow> error + 'r pyval" where
  "strip_none tapes =
     (case tapes of
        PTuple [] \<Rightarrow> Inl (IndexError ''tuple index out of range'')
      | PTuple (x # xs) \<Rightarrow> (case last (x # xs) of PNone \<Rightarrow> Inr x | _ \<Rightarrow> Inr tapes)
      | _ \<Rightarrow> Inr tapes)"

definition is_sequence :: "'r pyval \<Rightarrow> bool" where
  "is_sequence v = (case v of PList _ \<Rightarrow> True | PTuple _ \<Rightarrow> True | _ \<Rightarrow> False)"

type_synonym ('v, 'r) qnode_call =
  "'v list \<Rightarrow> ('v, 'r) qnode \<Rightarrow> state \<Rightarrow> (error + 'r pyval) \<times> ('v, 'r) qnode \<times> state"

text \<open>
  The \<^verbatim>\<open>internal_wrapper\<close> of the branch for more than one parameter. The QNode is a
  mutable object that the wrapper closes over: a call receives its current value and gives
  back its new value. The values \<open>auto_execute\<close> and \<open>post_process\<close> are those
  computed at registration. The name \<^verbatim>\<open>Sequence\<close> is looked up when the test
  \<^verbatim>\<open>isinstance(tapes, Sequence)\<close> is evaluated.
\<close>

definition internal_wrapper_many ::
  "('v, 'r) qnode_transform_arg \<Rightarrow> bool \<Rightarrow> bool \<Rightarrow> 'v list \<Rightarrow> ('v, 'r) qnode_call" where
  "internal_wrapper_many qnode_transform_fn auto_execute post_process targs args qn s =
     (case construct qn args s of
        (Inl e, s1) \<Rightarrow> (Inl e, qn, s1)
      | (Inr qn1, s1) \<Rightarrow>
          if auto_execute \<and> \<not> post_process then
            (case call_transform qnode_transform_fn (tape_argument qn1) targs s1 of
               (Inl e, s2) \<Rightarrow> (Inl e, qn1, s2)
             | (Inr tapes, s2) \<Rightarrow>
                 (case strip_none tapes of
                    Inl e \<Rightarrow> (Inl e, qn1, s2)
                  | Inr tapes1 \<Rightarrow>
                      if ''Sequence'' \<notin> set module_names
                      then (Inl (NameError ''Sequence''), qn1, s2)
                      else
                        (let tapes2 = (if \<not> is_sequence tapes1 then PList [tapes1] else tapes1)
                         in (case execute_all (device qn1) tapes2 s2 of
                               (Inl e, s3) \<Rightarrow> (Inl e, qn1, s3)
                             | (Inr res, s3) \<Rightarrow> (Inr (PList (map PResult res)), qn1, s3)))))
          else if auto_execute then
            (case call_transform qnode_transform_fn (QNode_argument qn1) targs s1 of
               (Inl e, s2) \<Rightarrow> (Inl e, qn1, s2)
             | (Inr v, s2) \<Rightarrow>
                 (case unpack_pair v of
                    Inl e \<Rightarrow> (Inl e, qn1, s2)
                  | Inr (tapes, fn) \<Rightarrow>
                      (case execute_all (device qn1) tapes s2 of
                         (Inl e, s3) \<Rightarrow> (Inl e, qn1, s3)
                       | (Inr res, s3) \<Rightarrow> (apply_fn fn res, qn1, s3))))
          else (Inr PNone, qn1, s1))"

text \<open>The \<^verbatim>\<open>internal_wrapper\<close> of the branch for one parameter.\<close>

definition internal_wrapper_one :: "('v, 'r) qnode_transform_arg \<Rightarrow> ('v, 'r) qnode_call" where
  "internal_wrapper_one qnode_transform_fn args qn s =
     (case construct qn args s of
        (Inl e, s1) \<Rightarrow> (Inl e, qn, s1)
      | (Inr qn1, s1) \<Rightarrow>
          (case qnode_transform_fn of
             Single_tape t \<Rightarrow>
               (case call_transform qnode_transform_fn (tape_argument qn1) [] s1 of
                  (Inl e, s2) \<Rightarrow> (Inl e, qn1, s2)
                | (Inr new_tp, s2) \<Rightarrow>
                    (case execute_all (device qn1) (PList [new_tp]) s2 of
                       (Inl e, s3) \<Rightarrow> (Inl e, qn1, s3)
                     | (Inr res, s3) \<Rightarrow> (Inr (PList (map PResult res)), qn1, s3)))
           | _ \<Rightarrow>
               (case call_transform qnode_transform_fn (QNode_argument qn1) [] s1 of
                  (Inl e, s2) \<Rightarrow> (Inl e, qn1, s2)
                | (Inr v, s2) \<Rightarrow>
                    (case unpack_pair v of
                       Inl e \<Rightarrow> (Inl e, qn1, s2)
                     | Inr (tapes, fn) \<Rightarrow>
                         (case execute_all (device qn1) tapes s2 of
                            (Inl e, s3) \<Rightarrow> (Inl e, qn1, s3)
                          | (Inr res, s3) \<Rightarrow> (apply_fn fn res, qn1, s3))))))"

text \<open>
  The decorated QNode: the wrapper with the attributes \<^verbatim>\<open>qnode\<close>, \<^verbatim>\<open>interface\<close> and
  \<^verbatim>\<open>device\<close> that the decorator sets on it.
\<close>

record ('v, 'r) wrapped_qnode =
  call :: "('v, 'r) qnode_call"
  w_qnode :: "('v, 'r) qnode"
  w_interface :: string
  w_device :: "'r device"

type_synonym ('v, 'r) qnode_decorator = "('v, 'r) decorated \<Rightarrow> error + ('v, 'r) wrapped_qnode"

datatype ('v, 'r) qnode_transformer =
    QNode_decorator "('v, 'r) qnode_decorator"
  | QNode_decorator_factory "'v list \<Rightarrow> ('v, 'r) qnode_decorator"

definition qnode_wrapper :: "('v, 'r) qnode_call \<Rightarrow> ('v, 'r) qnode_decorator" where
  "qnode_wrapper internal_wrapper target =
     (case target of
        Not_a_QNode d \<Rightarrow>
          Inl (ValueError (''The object to transform, '' @ d @
                 '', does not appear to be a valid QNode.''))
      | QNode_object qn \<Rightarrow>
          Inr \<lparr>call = internal_wrapper, w_qnode = qn, w_interface = interface qn,
               w_device = device qn\<rparr>)"

text \<open>
  The classification that \<^verbatim>\<open>qnode_transform\<close> computes when a transform is registered.
\<close>

definition is_single_tape_transform :: "('v, 'r) qnode_transform_arg \<Rightarrow> bool" where
  "is_single_tape_transform f = (case f of Single_tape _ \<Rightarrow> True | _ \<Rightarrow> False)"

definition auto_execute_of :: "('v, 'r) qnode_transform_arg \<Rightarrow> annotation \<Rightarrow> bool" where
  "auto_execute_of f return_annotation =
     (if is_single_tape_transform f then True else return_annotation \<in> set AUTO_EXECUTE)"

definition post_process_of :: "('v, 'r) qnode_transform_arg \<Rightarrow> annotation \<Rightarrow> bool" where
  "post_process_of f return_annotation =
     (if is_single_tape_transform f then False
      else auto_execute_of f return_annotation
             \<and> return_annotation \<in> set AUTO_EXECUTE_PROCESSING)"

definition qnode_transform ::
  "('v, 'r) qnode_transform_arg \<Rightarrow> error + ('v, 'r) qnode_transformer" where
  "qnode_transform qnode_transform_fn =
     (case qnode_transform_fn of
        Not_callable_object d \<Rightarrow>
          Inl (ValueError (''The qnode_transform decorator can only be applied '' @
                 ''to valid Python functions or callables.''))
      | _ \<Rightarrow>
          (case signature qnode_transform_fn of
             Inl e \<Rightarrow> Inl e
           | Inr (params, return_annotation) \<Rightarrow>
               (let auto_execute = auto_execute_of qnode_transform_fn return_annotation;
                    post_process = post_process_of qnode_transform_fn return_annotation
                in if params > 1
                   then Inr (QNode_decorator_factory (\<lambda>targs.
                          qnode_wrapper
                            (internal_wrapper_many qnode_transform_fn auto_execute post_process
                               targs)))
                   else if params = 1
                   then Inr (QNode_decorator (qnode_wrapper (internal_wrapper_one qnode_transform_fn)))
                   else Inl (UnboundLocalError ''make_qnode_transform''))))"

section \<open>The classical Jacobian\<close>

text \<open>
  \<^verbatim>\<open>_make_jacobian_fn(fn, interface)\<close> of \<^verbatim>\<open>classical_jacobian.py\<close>. The adapter it
  returns is the Jacobian primitive of the backend applied to \<open>fn\<close>: for autograd and jax
  the result of \<^verbatim>\<open>qml.jacobian(fn)\<close> and \<^verbatim>\<open>jax.jacobian(fn)\<close>, for torch and
  tensorflow a local function \<^verbatim>\<open>_jacobian\<close> that closes over \<open>fn\<close>. The backends are
  libraries outside the repository; an adapter is represented by the backend and the function
  it differentiates. The imports of \<^verbatim>\<open>torch\<close>, \<^verbatim>\<open>jax\<close> and \<^verbatim>\<open>tensorflow\<close>
  inside the branches are taken to resolve. After the four tests the function ends, which
  returns \<^verbatim>\<open>None\<close>.
\<close>

datatype 'f jacobian_fn =
    Autograd_jacobian 'f
  | Torch_jacobian 'f
  | Jax_jacobian 'f
  | Tf_jacobian 'f

definition make_jacobian_fn :: "'f \<Rightarrow> string \<Rightarrow> 'f jacobian_fn option" where
  "make_jacobian_fn fn interface_name =
     (if interface_name = ''autograd'' then Some (Autograd_jacobian fn)
      else if interface_name = ''torch'' then Some (Torch_jacobian fn)
      else if interface_name = ''jax'' then Some (Jax_jacobian fn)
      else if interface_name = ''tf'' then Some (Tf_jacobian fn)
      else None)"

text \<open>
  The methods of the tape that \<^verbatim>\<open>expansion_jacobian\<close> calls are defined with the tape
  classes, outside the two files; they are parameters here. \<^verbatim>\<open>set_parameters\<close> changes
  the tape it is called on, \<^verbatim>\<open>expand\<close> gives a new tape, both may raise;
  \<^verbatim>\<open>get_parameters\<close> reads the parameters. The type \<open>'t\<close> is the type of tapes,
  \<open>'p\<close> of parameter values, \<open>'s\<close> of stop predicates.
\<close>

record ('t, 'p, 's) tape_methods =
  set_parameters :: "'t \<Rightarrow> 'p list \<Rightarrow> error + 't"
  expand :: "'t \<Rightarrow> nat \<Rightarrow> 's option \<Rightarrow> error + 't"
  get_parameters :: "'t \<Rightarrow> 'p list"
  tape_interface :: "'t \<Rightarrow> string"

text \<open>
  An \<^verbatim>\<open>expansion_jacobian\<close> object: the tape, the cached expanded tape
  (\<^verbatim>\<open>_expanded_tape\<close>, read through the property \<^verbatim>\<open>expanded_tape\<close>), and the depth and
  the stop predicate that the preprocessing function closes over.
\<close>

record ('t, 's) expansion_jacobian =
  ej_tape :: 't
  expanded_tape :: "'t option"
  ej_depth :: nat
  ej_stop_at :: "'s option"

definition expansion_jacobian_init :: "'t \<Rightarrow> nat \<Rightarrow> 's option \<Rightarrow> ('t, 's) expansion_jacobian" where
  "expansion_jacobian_init tp depth stop_at =
     \<lparr>ej_tape = tp, expanded_tape = None, ej_depth = depth, ej_stop_at = stop_at\<rparr>"

text \<open>
  The function \<^verbatim>\<open>classical_preprocessing(params)\<close> of an \<^verbatim>\<open>expansion_jacobian\<close>,
  acting on the object. \<^verbatim>\<open>qml.math.stack\<close> turns the list of parameters into an array of
  the backend; the list stands for it.
\<close>

definition classical_preprocessing ::
  "('t, 'p, 's) tape_methods \<Rightarrow> 'p list \<Rightarrow> ('t, 's) expansion_jacobian
     \<Rightarrow> (error + 'p list) \<times> ('t, 's) expansion_jacobian" where
  "classical_preprocessing m params self =
     (case set_parameters m (ej_tape self) params of
        Inl e \<Rightarrow> (Inl e, self)
      | Inr tp \<Rightarrow>
          (case expand m tp (ej_depth self) (ej_stop_at self) of
             Inl e \<Rightarrow> (Inl e, self\<lparr>ej_tape := tp\<rparr>)
           | Inr ex \<Rightarrow>
               (Inr (get_parameters m ex), self\<lparr>ej_tape := tp, expanded_tape := Some ex\<rparr>)))"

text \<open>The attribute \<^verbatim>\<open>jac_fn\<close> that \<^verbatim>\<open>__init__\<close> sets.\<close>

definition jac_fn ::
  "('t, 'p, 's) tape_methods \<Rightarrow> ('t, 's) expansion_jacobian
     \<Rightarrow> ('p list \<Rightarrow> ('t, 's) expansion_jacobian
           \<Rightarrow> (error + 'p list) \<times> ('t, 's) expansion_jacobian) jacobian_fn option" where
  "jac_fn m self = make_jacobian_fn (classical_preprocessing m) (tape_interface m (ej_tape self))"

section \<open>Example objects\<close>

text \<open>
  A tape that records and holds one rotation, the state in which it is the active scope,
  and the state with no active scope.
\<close>

definition ex_outer :: tape where
  "ex_outer =
     \<lparr>ident = 0, cls = ''QuantumTape'', non_queuing = False,
      queue = [(Op (Operation 1 ''RY''), [])], recording = True,
      operations = [], measurements = []\<rparr>"

definition ex_state :: state where
  "ex_state = \<lparr>active_contexts = [ex_outer], next_ident = 2, executed = []\<rparr>"

definition ex_idle :: state where
  "ex_idle = \<lparr>active_contexts = [], next_ident = 2, executed = []\<rparr>"

text \<open>
  The quantum function of the docstring of \<^verbatim>\<open>make_tape\<close>, followed by a measurement:
  a Hadamard gate, a CNOT, a rotation.
\<close>

definition ex_qfunc :: "nat qfunc" where
  "ex_qfunc args =
     [Queue (Operation 10 ''Hadamard'') [], Queue (Operation 11 ''CNOT'') [],
      Queue (Operation 12 ''RX'') [], Queue (Measurement 13 ''expval'') []]"

text \<open>
  A tape as \<^const>\<open>ex_qfunc\<close> leaves it, and two transform functions that replace its
  content by one rotation and one measurement, with one and with two parameters.
\<close>

definition ex_input :: tape where
  "ex_input =
     \<lparr>ident = 5, cls = ''JacobianTape'', non_queuing = False,
      queue = [(Op (Operation 10 ''Hadamard''), []), (Op (Measurement 13 ''expval''), [])],
      recording = True,
      operations = [Operation 10 ''Hadamard''], measurements = [Measurement 13 ''expval'']\<rparr>"

definition ex_tape_function :: "nat \<Rightarrow> nat tape_function" where
  "ex_tape_function n =
     \<lparr>tf_params = n, tf_annotation = Empty_annotation,
      tf_body = (\<lambda>tp args. [Queue (Operation 20 ''RZ'') [], Queue (Measurement 21 ''probs'') []])\<rparr>"

definition ex_transform :: "nat \<Rightarrow> nat single_tape_transform" where
  "ex_transform n = \<lparr>transform_fn = ex_tape_function n\<rparr>"

text \<open>
  A device that answers with the number of entries of the tape it executes, a QNode on it,
  and a function to register as QNode transform: called on a tape it returns the tape
  \<^const>\<open>ex_input\<close>, called on a QNode it returns that tape in a list, with a
  processing function that sums the results.
\<close>

definition ex_device :: "nat device" where
  "ex_device = \<lparr>dev_name = ''default.qubit'', dev_execute = (\<lambda>t. Inr (length (queue t)))\<rparr>"

definition ex_qnode :: "(nat, nat) qnode" where
  "ex_qnode = \<lparr>func = ex_qfunc, device = ex_device, interface = ''autograd'', qtape = None\<rparr>"

definition ex_qnode_body ::
  "(nat, nat) first_argument \<Rightarrow> nat list \<Rightarrow> state \<Rightarrow> nat pyval outcome" where
  "ex_qnode_body x targs s =
     (case x of
        QNode_argument qn \<Rightarrow>
          (Inr (PTuple [PList [PTape ex_input],
                        PFunction (\<lambda>res. Inr (PResult (sum_list res)))]), s)
      | _ \<Rightarrow> (Inr (PTape ex_input), s))"

definition ex_qnode_function :: "nat \<Rightarrow> annotation \<Rightarrow> (nat, nat) qnode_function" where
  "ex_qnode_function n a = \<lparr>qf_params = n, qf_annotation = a, qf_body = ex_qnode_body\<rparr>"

text \<open>
  The use of a registered QNode transform: \<^verbatim>\<open>transform(*targs)(qnode)\<close> for a factory,
  \<^verbatim>\<open>transform(qnode)\<close> for a decorator, and the call of the decorated QNode.
\<close>

definition decorate ::
  "error + ('v, 'r) qnode_transformer \<Rightarrow> 'v list \<Rightarrow> ('v, 'r) decorated
     \<Rightarrow> error + ('v, 'r) wrapped_qnode" where
  "decorate r targs target =
     (case r of
        Inl e \<Rightarrow> Inl e
      | Inr (QNode_decorator d) \<Rightarrow> d target
      | Inr (QNode_decorator_factory mk) \<Rightarrow> mk targs target)"

definition call_decorated ::
  "error + ('v, 'r) wrapped_qnode \<Rightarrow> ('v, 'r) qnode_call" where
  "call_decorated r args qn s =
     (case r of Inl e \<Rightarrow> (Inl e, qn, s) | Inr w \<Rightarrow> call w args qn s)"

text \<open>
  Tapes for the expansion: a tape is the list of its parameters, setting parameters needs as
  many values as the tape has, expanding to depth \<open>d\<close> repeats every parameter \<open>d\<close>
  times.
\<close>

definition ex_methods :: "(nat list, nat, unit) tape_methods" where
  "ex_methods =
     \<lparr>set_parameters =
        (\<lambda>t ps. if length ps = length t then Inr ps
                 else Inl (ValueError ''Number of provided parameters invalid'')),
      expand = (\<lambda>t d stop. Inr (concat (map (replicate d) t))),
      get_parameters = (\<lambda>t. t),
      tape_interface = (\<lambda>t. ''autograd'')\<rparr>"

section \<open>Bodies running inside a scope\<close>

text \<open>
  A body that runs while a recording scope is on top of the stack changes the queue of that
  scope only; forwarding a queue to a recording scope does the same, and forwarding to a
  scope that was told to stop, or to no scope, changes nothing.
\<close>

lemma run_recording:
  "active_contexts s = t # ts \<Longrightarrow> recording t \<Longrightarrow>
   run ss s = (run_result ss, s\<lparr>active_contexts := t\<lparr>queue := run_queue ss (queue t)\<rparr> # ts\<rparr>)"
proof (induction ss arbitrary: s t)
  case Nil
  then show ?case by simp
next
  case (Cons x ss)
  show ?case
  proof (cases x)
    case (Queue ob kw)
    let ?s = "QueuingContext_append (Op ob) kw s"
    let ?t = "t\<lparr>queue := AList.update (Op ob) kw (queue t)\<rparr>"
    have a: "active_contexts ?s = ?t # ts" and b: "recording ?t"
      and c: "?s = s\<lparr>active_contexts := ?t # ts\<rparr>"
      using Cons.prems by (simp_all add: QueuingContext_append_def)
    show ?thesis using Cons.IH [OF a b] Queue by (simp add: c)
  next
    case (Raise msg)
    then show ?thesis using Cons.prems by simp
  qed
qed


lemma forward_stopped:
  "active_contexts s = t # ts \<Longrightarrow> \<not> recording t \<Longrightarrow> forward_queue q s = s"
  by (induction q arbitrary: s) (auto simp: QueuingContext_append_def)

lemma forward_empty:
  "active_contexts s = [] \<Longrightarrow> forward_queue q s = s"
  by (induction q arbitrary: s) (auto simp: QueuingContext_append_def)


lemma run_queue_keys:
  "fst ` set (run_queue ss q) = fst ` set q \<union> Op ` set (queued_by ss)"
  by (induction ss q rule: run_queue.induct) (auto simp: dom_update)

lemma forward_into_keys:
  "fst ` set (forward_into es q) = fst ` set q \<union> fst ` set es"
  by (induction es q rule: forward_into.induct) (auto simp: dom_update)

lemma with_tape_run_stopped:
  assumes "active_contexts s = a # ts" "\<not> recording a" "recording t" "queue t = []"
  shows "with_tape t (run ss) s =
          ((case run_result ss of Inl e \<Rightarrow> Inl e
            | Inr _ \<Rightarrow> Inr (super_process_queue (t\<lparr>queue := run_queue ss []\<rparr>))), s)"
proof -
  have e: "tape_enter t s = s\<lparr>active_contexts := t # a # ts\<rparr>"
    using assms by (simp add: tape_enter_def QueuingContext_append_def)
  have r: "run ss (tape_enter t s) =
      (run_result ss, s\<lparr>active_contexts := t\<lparr>queue := run_queue ss []\<rparr> # a # ts\<rparr>)"
    using run_recording [of "s\<lparr>active_contexts := t # a # ts\<rparr>" t "a # ts" ss] assms
    by (simp add: e)
  let ?t = "t\<lparr>queue := run_queue ss []\<rparr>"
  have p: "process_queue ?t s = (super_process_queue ?t, s)"
    using assms forward_stopped [of s a ts]
    by (simp add: process_queue_def NonQueuingTape_process_queue_def Let_def
        QueuingContext_remove_def super_process_queue_def)
  have s0: "s\<lparr>active_contexts := a # ts\<rparr> = s" using assms by simp
  have x: "tape_exit (s\<lparr>active_contexts := ?t # a # ts\<rparr>) = (Inr (super_process_queue ?t), s)"
    by (simp add: tape_exit_def s0 p)
  show ?thesis
    by (simp add: with_tape_def r x split: sum.splits)
qed

lemma with_tape_run_empty:
  assumes "active_contexts s = []" "recording t" "queue t = []"
  shows "with_tape t (run ss) s =
          ((case run_result ss of Inl e \<Rightarrow> Inl e
            | Inr _ \<Rightarrow> Inr (super_process_queue (t\<lparr>queue := run_queue ss []\<rparr>))), s)"
proof -
  have e: "tape_enter t s = s\<lparr>active_contexts := [t]\<rparr>"
    using assms by (simp add: tape_enter_def QueuingContext_append_def)
  have r: "run ss (tape_enter t s) =
      (run_result ss, s\<lparr>active_contexts := [t\<lparr>queue := run_queue ss []\<rparr>]\<rparr>)"
    using run_recording [of "s\<lparr>active_contexts := [t]\<rparr>" t "[]" ss] assms
    by (simp add: e)
  let ?t = "t\<lparr>queue := run_queue ss []\<rparr>"
  have p: "process_queue ?t s = (super_process_queue ?t, s)"
    using assms forward_empty [of s]
    by (simp add: process_queue_def NonQueuingTape_process_queue_def Let_def
        QueuingContext_remove_def super_process_queue_def)
  have s0: "s\<lparr>active_contexts := []\<rparr> = s" using assms by simp
  have x: "tape_exit (s\<lparr>active_contexts := [?t]\<rparr>) = (Inr (super_process_queue ?t), s)"
    by (simp add: tape_exit_def s0 p)
  show ?thesis
    by (simp add: with_tape_def r x split: sum.splits)
qed


lemma resume_recording:
  "active_contexts s = a # ts \<Longrightarrow> recording a \<Longrightarrow>
   set_recording True (set_recording False s) = s"
  by (simp add: set_recording_def)


section \<open>Isolation of make\_tape\<close>

text \<open>
  Claim C3. For every quantum function and arguments, the function returned by
  \<^verbatim>\<open>make_tape(fn)\<close> returns a tape that captures exactly the operations instantiated
  while \<open>fn\<close> ran, in order; no enclosing scope captures any of them, and the scope that
  was recording before the call is active afterwards with its contents unmodified, whether
  \<open>fn\<close> returns or raises: the state after the call is the state before it, but for the
  identity given to the new tape. When \<open>fn\<close> raises, its error propagates.
\<close>

theorem make_tape_isolated:
  fixes fn :: "'v qfunc"
  assumes "\<forall>a. get_active_tape s = Some a \<longrightarrow> recording a"
  shows "\<exists>t. make_tape fn args s =
            ((case run_result (fn args) of Inl e \<Rightarrow> Inl e | Inr _ \<Rightarrow> Inr t),
             s\<lparr>next_ident := Suc (next_ident s)\<rparr>)
          \<and> queue t = run_queue (fn args) []
          \<and> fst ` set (queue t) = Op ` set (queued_by (fn args))"
proof (cases "active_contexts s")
  case Nil
  let ?t = "\<lparr>ident = next_ident s, cls = ''QuantumTape'', non_queuing = False, queue = [],
      recording = True, operations = [], measurements = []\<rparr>"
  let ?s1 = "s\<lparr>next_ident := Suc (next_ident s)\<rparr>"
  let ?r = "super_process_queue (?t\<lparr>queue := run_queue (fn args) []\<rparr>)"
  have n: "new_tape ''QuantumTape'' False s = (?t, ?s1)" by (simp add: new_tape_def)
  have w: "with_tape ?t (run (fn args)) ?s1 =
      ((case run_result (fn args) of Inl e \<Rightarrow> Inl e | Inr _ \<Rightarrow> Inr ?r), ?s1)"
    by (rule with_tape_run_empty) (simp_all add: Nil)
  have "make_tape fn args s =
      ((case run_result (fn args) of Inl e \<Rightarrow> Inl e | Inr _ \<Rightarrow> Inr ?r), ?s1)"
    using Nil w by (simp add: make_tape_def get_active_tape_def n)
  moreover have "queue ?r = run_queue (fn args) []"
    by (simp add: super_process_queue_def)
  moreover have "fst ` set (queue ?r) = Op ` set (queued_by (fn args))"
    by (simp add: super_process_queue_def run_queue_keys)
  ultimately show ?thesis by blast
next
  case (Cons a ts)
  have rec: "recording a" using assms Cons by (simp add: get_active_tape_def)
  let ?s0 = "stop_recording_enter s"
  let ?a = "a\<lparr>recording := False\<rparr>"
  have s0: "?s0 = s\<lparr>active_contexts := ?a # ts\<rparr>"
    using Cons by (simp add: stop_recording_enter_def set_recording_def)
  let ?t = "\<lparr>ident = next_ident s, cls = cls a, non_queuing = non_queuing a, queue = [],
      recording = True, operations = [], measurements = []\<rparr>"
  let ?s1 = "?s0\<lparr>next_ident := Suc (next_ident s)\<rparr>"
  let ?r = "super_process_queue (?t\<lparr>queue := run_queue (fn args) []\<rparr>)"
  have n: "new_tape (cls a) (non_queuing a) ?s0 = (?t, ?s1)"
    by (simp add: new_tape_def s0)
  have w: "with_tape ?t (run (fn args)) ?s1 =
      ((case run_result (fn args) of Inl e \<Rightarrow> Inl e | Inr _ \<Rightarrow> Inr ?r), ?s1)"
    by (rule with_tape_run_stopped [where a = ?a and ts = ts]) (simp_all add: s0)
  have res: "stop_recording_exit ?s1 = s\<lparr>next_ident := Suc (next_ident s)\<rparr>"
    using Cons rec by (simp add: stop_recording_exit_def set_recording_def s0)
  have "make_tape fn args s =
      ((case run_result (fn args) of Inl e \<Rightarrow> Inl e | Inr _ \<Rightarrow> Inr ?r),
       s\<lparr>next_ident := Suc (next_ident s)\<rparr>)"
    using Cons w res by (simp add: make_tape_def get_active_tape_def n Let_def)
  moreover have "queue ?r = run_queue (fn args) []"
    by (simp add: super_process_queue_def)
  moreover have "fst ` set (queue ?r) = Op ` set (queued_by (fn args))"
    by (simp add: super_process_queue_def run_queue_keys)
  ultimately show ?thesis by blast
qed

text \<open>
  Claim C3, at the example: with \<^const>\<open>ex_outer\<close> recording, the tape of
  \<^const>\<open>ex_qfunc\<close> holds its four objects and the stack is as before.
\<close>

theorem make_tape_isolated_witness:
  "get_active_tape ex_state = Some ex_outer \<and> recording ex_outer \<and>
   (\<exists>t. make_tape ex_qfunc [] ex_state = (Inr t, ex_state\<lparr>next_ident := 3\<rparr>) \<and>
        map fst (queue t) =
          [Op (Operation 10 ''Hadamard''), Op (Operation 11 ''CNOT''),
           Op (Operation 12 ''RX''), Op (Measurement 13 ''expval'')])"
proof -
  have h: "\<forall>a. get_active_tape ex_state = Some a \<longrightarrow> recording a"
    by (simp add: ex_state_def ex_outer_def get_active_tape_def)
  have r: "run_result (ex_qfunc []) = Inr ()" by (simp add: ex_qfunc_def)
  have q: "map fst (run_queue (ex_qfunc []) []) =
          [Op (Operation 10 ''Hadamard''), Op (Operation 11 ''CNOT''),
           Op (Operation 12 ''RX''), Op (Measurement 13 ''expval'')]"
    by (simp add: ex_qfunc_def)
  have n: "Suc (next_ident ex_state) = 3" by (simp add: ex_state_def)
  from make_tape_isolated [OF h, of ex_qfunc "[]"] obtain t where
    "make_tape ex_qfunc [] ex_state = (Inr t, ex_state\<lparr>next_ident := 3\<rparr>)"
    "queue t = run_queue (ex_qfunc []) []"
    by (auto simp: r n)
  then show ?thesis using q
    by (auto simp: get_active_tape_def ex_state_def ex_outer_def)
qed

section \<open>What a single-tape transform leaves in the enclosing scope\<close>




section \<open>The Jacobian adapters\<close>

text \<open>
  Claim C6. For each of the four backend identifiers \<^verbatim>\<open>autograd\<close>, \<^verbatim>\<open>torch\<close>,
  \<^verbatim>\<open>jax\<close> and \<^verbatim>\<open>tf\<close> the factory returns an adapter, the four adapters are
  distinct, and for every other identifier it returns \<^verbatim>\<open>None\<close>; it has no way to
  raise.
\<close>

theorem make_jacobian_fn_backends:
  "make_jacobian_fn fn ''autograd'' = Some (Autograd_jacobian fn)
   \<and> make_jacobian_fn fn ''torch'' = Some (Torch_jacobian fn)
   \<and> make_jacobian_fn fn ''jax'' = Some (Jax_jacobian fn)
   \<and> make_jacobian_fn fn ''tf'' = Some (Tf_jacobian fn)
   \<and> distinct [Autograd_jacobian fn, Torch_jacobian fn, Jax_jacobian fn, Tf_jacobian fn]
   \<and> (\<forall>i. i \<notin> set [''autograd'', ''torch'', ''jax'', ''tf''] \<longrightarrow> make_jacobian_fn fn i = None)"
  by (simp add: make_jacobian_fn_def)

text \<open>
  Claim C6, at an identifier that is none of the four, and at \<^verbatim>\<open>torch\<close>.
\<close>

theorem make_jacobian_fn_backends_witness:
  "''numpy'' \<notin> set [''autograd'', ''torch'', ''jax'', ''tf'']
   \<and> make_jacobian_fn (0::nat) ''numpy'' = None
   \<and> make_jacobian_fn (0::nat) ''torch'' = Some (Torch_jacobian 0)"
  using make_jacobian_fn_backends [of "0::nat"] by simp

section \<open>The preprocessing function of the expansion mode\<close>

text \<open>
  Claim C4. A call of the preprocessing function of an \<^verbatim>\<open>expansion_jacobian\<close> with
  parameter values writes the values into the original tape, expands that tape to the depth
  and with the stop predicate of the object, stores the expanded tape in the object and
  returns the parameters of the expanded tape, provided \<^verbatim>\<open>set_parameters\<close> and
  \<^verbatim>\<open>expand\<close> return. The tape stored after the call is the expansion made in this
  call, whatever was stored before.
\<close>

theorem classical_preprocessing_caches_expansion:
  assumes "set_parameters m (ej_tape self) params = Inr tp"
    and "expand m tp (ej_depth self) (ej_stop_at self) = Inr ex"
  shows "classical_preprocessing m params self =
           (Inr (get_parameters m ex), self\<lparr>ej_tape := tp, expanded_tape := Some ex\<rparr>)
         \<and> expanded_tape (snd (classical_preprocessing m params (self\<lparr>expanded_tape := stale\<rparr>)))
             = Some ex"
  using assms by (simp add: classical_preprocessing_def)

text \<open>
  Claim C4, at the example tapes: the values 5 and 7 written into a tape of two parameters
  and expanded to depth 2, with nothing and with an older expansion stored before.
\<close>

theorem classical_preprocessing_caches_expansion_witness:
  "set_parameters ex_methods (ej_tape (expansion_jacobian_init [1, 2] 2 None)) [5, 7] = Inr [5, 7]
   \<and> expand ex_methods [5, 7] 2 None = Inr [5, 5, 7, 7]
   \<and> classical_preprocessing ex_methods [5, 7] (expansion_jacobian_init [1, 2] 2 None) =
       (Inr [5, 5, 7, 7],
        \<lparr>ej_tape = [5, 7], expanded_tape = Some [5, 5, 7, 7], ej_depth = 2, ej_stop_at = None\<rparr>)
   \<and> expanded_tape (snd (classical_preprocessing ex_methods [5, 7]
        ((expansion_jacobian_init [1, 2] 2 None)\<lparr>expanded_tape := Some [9, 9, 9, 9]\<rparr>)))
       = Some [5, 5, 7, 7]"
proof -
  let ?self = "expansion_jacobian_init [1::nat, 2] 2 (None :: unit option)"
  have a: "set_parameters ex_methods (ej_tape ?self) [5, 7] = Inr [5, 7]"
    by (simp add: ex_methods_def expansion_jacobian_init_def)
  have b: "expand ex_methods [5, 7] (ej_depth ?self) (ej_stop_at ?self) = Inr [5, 5, 7, 7]"
    by (simp add: ex_methods_def expansion_jacobian_init_def numeral_2_eq_2)
  have c: "expand ex_methods [5, 7] 2 None = Inr [5, 5, 7, 7]"
    by (simp add: ex_methods_def numeral_2_eq_2)
  show ?thesis
    using classical_preprocessing_caches_expansion [OF a b, of "Some [9, 9, 9, 9]"] a c
    by (simp add: expansion_jacobian_init_def ex_methods_def)
qed

section \<open>The qfunc transform\<close>



section \<open>Configuration errors\<close>

text \<open>
  Claim C9. Registering an object that is not callable as single-tape transform raises a
  \<^verbatim>\<open>ValueError\<close>; every decorator that \<^verbatim>\<open>qfunc_transform\<close> yields raises a
  \<^verbatim>\<open>ValueError\<close> when it is applied to an object that is not callable; every decorator
  that \<^verbatim>\<open>qnode_transform\<close> yields raises a \<^verbatim>\<open>ValueError\<close> when it is applied to an
  object that is not a QNode. The error is the result of the registration or decoration
  itself, which does not touch the state: no tape is built, and no wrapper exists that
  could raise it when called.
\<close>

theorem configuration_errors_at_registration:
  "(\<exists>msg. single_tape_transform_init (Not_callable d :: 'v transform_arg) = Inl (ValueError msg))
   \<and> (\<forall>(r :: 'v registrable) dec t. qfunc_transform r = Inr (Decorator dec, t) \<longrightarrow>
         (\<exists>msg. dec (Not_a_function d) = Inl (ValueError msg)))
   \<and> (\<forall>(r :: 'v registrable) mk t targs. qfunc_transform r = Inr (Decorator_factory mk, t) \<longrightarrow>
         (\<exists>msg. mk targs (Not_a_function d) = Inl (ValueError msg)))
   \<and> (\<forall>(q :: ('v, 'r) qnode_transform_arg) dec. qnode_transform q = Inr (QNode_decorator dec) \<longrightarrow>
         (\<exists>msg. dec (Not_a_QNode d) = Inl (ValueError msg)))
   \<and> (\<forall>(q :: ('v, 'r) qnode_transform_arg) mk targs.
         qnode_transform q = Inr (QNode_decorator_factory mk) \<longrightarrow>
         (\<exists>msg. mk targs (Not_a_QNode d) = Inl (ValueError msg)))"
proof (intro conjI allI impI)
  show "\<exists>msg. single_tape_transform_init (Not_callable d :: 'v transform_arg) = Inl (ValueError msg)"
    by (simp add: single_tape_transform_init_def)
next
  fix r :: "'v registrable" and dec t
  assume "qfunc_transform r = Inr (Decorator dec, t)"
  then have "dec = qfunc_wrapper t []"
    by (auto simp: qfunc_transform_def Let_def split: if_splits sum.splits)
  then show "\<exists>msg. dec (Not_a_function d) = Inl (ValueError msg)"
    by (simp add: qfunc_wrapper_def)
next
  fix r :: "'v registrable" and mk t targs
  assume "qfunc_transform r = Inr (Decorator_factory mk, t)"
  then have "mk = (\<lambda>targs. qfunc_wrapper t targs)"
    by (auto simp: qfunc_transform_def Let_def split: if_splits sum.splits)
  then show "\<exists>msg. mk targs (Not_a_function d) = Inl (ValueError msg)"
    by (simp add: qfunc_wrapper_def)
next
  fix q :: "('v, 'r) qnode_transform_arg" and dec
  assume "qnode_transform q = Inr (QNode_decorator dec)"
  then have "dec = qnode_wrapper (internal_wrapper_one q)"
    by (auto simp: qnode_transform_def Let_def
        split: if_splits sum.splits qnode_transform_arg.splits prod.splits)
  then show "\<exists>msg. dec (Not_a_QNode d) = Inl (ValueError msg)"
    by (simp add: qnode_wrapper_def)
next
  fix q :: "('v, 'r) qnode_transform_arg" and mk targs
  assume "qnode_transform q = Inr (QNode_decorator_factory mk)"
  then have "\<exists>a p. mk = (\<lambda>targs. qnode_wrapper (internal_wrapper_many q a p targs))"
    by (auto simp: qnode_transform_def Let_def
        split: if_splits sum.splits qnode_transform_arg.splits prod.splits)
  then show "\<exists>msg. mk targs (Not_a_QNode d) = Inl (ValueError msg)"
    by (auto simp: qnode_wrapper_def)
qed

text \<open>
  Claim C9, at the example transforms with one parameter.
\<close>

theorem configuration_errors_at_registration_witness:
  "qfunc_transform (Registered (ex_transform 1)) =
     Inr (Decorator (qfunc_wrapper (ex_transform 1) []), ex_transform 1)
   \<and> (\<exists>msg. qfunc_wrapper (ex_transform 1) [] (Not_a_function ''5'') = Inl (ValueError msg))
   \<and> qnode_transform (QNode_function (ex_qnode_function 1 Empty_annotation)) =
       Inr (QNode_decorator
             (qnode_wrapper (internal_wrapper_one (QNode_function (ex_qnode_function 1 Empty_annotation)))))
   \<and> (\<exists>msg. qnode_wrapper (internal_wrapper_one (QNode_function (ex_qnode_function 1 Empty_annotation)))
         (Not_a_QNode ''5'') = Inl (ValueError msg))"
proof -
  have a: "qfunc_transform (Registered (ex_transform 1)) =
     Inr (Decorator (qfunc_wrapper (ex_transform 1) []), ex_transform 1)"
    by (simp add: qfunc_transform_def class_single_tape_transform_callable_def ex_transform_def
        ex_tape_function_def)
  have b: "qnode_transform (QNode_function (ex_qnode_function 1 Empty_annotation)) =
       Inr (QNode_decorator
             (qnode_wrapper (internal_wrapper_one (QNode_function (ex_qnode_function 1 Empty_annotation)))))"
    by (simp add: qnode_transform_def signature_def ex_qnode_function_def)
  note t = configuration_errors_at_registration [where ?'v = nat and ?'r = nat, of "''5''"]
  from t a have c: "\<exists>msg. qfunc_wrapper (ex_transform 1) [] (Not_a_function ''5'') = Inl (ValueError msg)"
    by blast
  from t b have d: "\<exists>msg. qnode_wrapper (internal_wrapper_one (QNode_function (ex_qnode_function 1 Empty_annotation)))
         (Not_a_QNode ''5'') = Inl (ValueError msg)"
    by blast
  show ?thesis using a b c d by blast
qed

section \<open>The executions of a state\<close>

text \<open>
  Queuing, the scopes and the construction of the tape of a QNode hand no tape to a device.
\<close>

lemma executed_append [simp]: "executed (QueuingContext_append ob kw s) = executed s"
  by (simp add: QueuingContext_append_def split: list.splits)

lemma executed_remove [simp]: "executed (QueuingContext_remove ob s) = executed s"
  by (simp add: QueuingContext_remove_def split: list.splits)

lemma executed_forward [simp]: "executed (forward_queue q s) = executed s"
  by (induction q s rule: forward_queue.induct) simp_all

lemma executed_run: "executed (snd (run ss s)) = executed s"
  by (induction ss s rule: run.induct) simp_all

lemma executed_process_queue: "executed (snd (process_queue t s)) = executed s"
  by (simp add: process_queue_def NonQueuingTape_process_queue_def Let_def)

lemma executed_tape_enter [simp]: "executed (tape_enter t s) = executed s"
  by (simp add: tape_enter_def Let_def)

lemma executed_tape_exit: "executed (snd (tape_exit s)) = executed s"
proof (cases "active_contexts s")
  case Nil
  then show ?thesis by (simp add: tape_exit_def)
next
  case (Cons t ts)
  obtain t' s' where p: "process_queue t (s\<lparr>active_contexts := ts\<rparr>) = (t', s')"
    by (cases "process_queue t (s\<lparr>active_contexts := ts\<rparr>)")
  have "executed s' = executed s"
    using executed_process_queue [of t "s\<lparr>active_contexts := ts\<rparr>"] p by simp
  then show ?thesis using Cons p by (simp add: tape_exit_def)
qed

lemma executed_with_tape: "executed (snd (with_tape t (run ss) s)) = executed s"
proof -
  obtain r s1 where a: "run ss (tape_enter t s) = (r, s1)" by (cases "run ss (tape_enter t s)")
  obtain x s2 where b: "tape_exit s1 = (x, s2)" by (cases "tape_exit s1")
  have "executed s1 = executed s" using executed_run [of ss "tape_enter t s"] a by simp
  moreover have "executed s2 = executed s1" using executed_tape_exit [of s1] b by simp
  ultimately show ?thesis by (simp add: with_tape_def a b split: sum.splits)
qed

lemma executed_construct: "executed (snd (construct qn args s)) = executed s"
proof -
  let ?s1 = "s\<lparr>next_ident := Suc (next_ident s)\<rparr>"
  let ?t = "\<lparr>ident = next_ident s, cls = ''QuantumTape'', non_queuing = False, queue = [],
      recording = True, operations = [], measurements = []\<rparr>"
  obtain r s2 where w: "with_tape ?t (run (func qn args)) ?s1 = (r, s2)"
    by (cases "with_tape ?t (run (func qn args)) ?s1")
  have "executed s2 = executed s"
    using executed_with_tape [of ?t "func qn args" ?s1] w by simp
  then show ?thesis
    by (simp add: construct_def new_tape_def w split: sum.splits)
qed

section \<open>Transforms that are not executed automatically\<close>

text \<open>
  Claim C10. For a QNode transform with more than one parameter whose return annotation is
  outside the auto-execute set, every call of the decorated QNode constructs the tape of
  the QNode and returns \<^verbatim>\<open>None\<close>: the body of the transform does not occur in the
  result, no tape is handed to a device, and the call raises only what the construction of
  the tape raises.
\<close>

theorem not_auto_execute_returns_None:
  fixes f :: "('v, 'r) qnode_function"
  assumes "qf_params f > 1" and "qf_annotation f \<notin> set AUTO_EXECUTE"
  shows "\<exists>mk. qnode_transform (QNode_function f) = Inr (QNode_decorator_factory mk) \<and>
      (\<forall>targs qn. \<exists>w. mk targs (QNode_object qn) = Inr w \<and>
         (\<forall>args q s.
            call w args q s =
              (case construct q args s of
                 (Inl e, s1) \<Rightarrow> (Inl e, q, s1)
               | (Inr q1, s1) \<Rightarrow> (Inr PNone, q1, s1))
            \<and> executed (snd (snd (call w args q s))) = executed s))"
proof -
  have cl: "\<not> auto_execute_of (QNode_function f) (qf_annotation f)"
    using assms(2) by (simp add: auto_execute_of_def is_single_tape_transform_def)
  let ?w = "internal_wrapper_many (QNode_function f)
      (auto_execute_of (QNode_function f) (qf_annotation f))
      (post_process_of (QNode_function f) (qf_annotation f))"
  have q: "qnode_transform (QNode_function f) =
      Inr (QNode_decorator_factory (\<lambda>targs. qnode_wrapper (?w targs)))"
    using assms(1) by (simp add: qnode_transform_def signature_def)
  have c: "?w targs args q s =
      (case construct q args s of
         (Inl e, s1) \<Rightarrow> (Inl e, q, s1)
       | (Inr q1, s1) \<Rightarrow> (Inr PNone, q1, s1))" for targs args q s
    using cl by (simp add: internal_wrapper_many_def split: prod.splits sum.splits)
  have e: "executed (snd (snd (?w targs args q s))) = executed s" for targs args q s
  proof -
    obtain r s1 where k: "construct q args s = (r, s1)" by (cases "construct q args s")
    have "executed s1 = executed s" using executed_construct [of q args s] k by simp
    then show ?thesis by (simp add: c k split: sum.splits)
  qed
  show ?thesis
    using q c e by (simp add: qnode_wrapper_def)
qed

text \<open>
  Claim C10, at the example function with two parameters and the return annotation
  \<^verbatim>\<open>int\<close>.
\<close>

theorem not_auto_execute_returns_None_witness:
  "qf_params (ex_qnode_function 2 (Other_annotation ''int'')) > 1
   \<and> qf_annotation (ex_qnode_function 2 (Other_annotation ''int'')) \<notin> set AUTO_EXECUTE
   \<and> (\<exists>mk w. qnode_transform (QNode_function (ex_qnode_function 2 (Other_annotation ''int'')))
          = Inr (QNode_decorator_factory mk)
        \<and> mk [3] (QNode_object ex_qnode) = Inr w
        \<and> fst (call w [] ex_qnode ex_idle) = Inr PNone
        \<and> executed (snd (snd (call w [] ex_qnode ex_idle))) = [])"
proof -
  let ?f = "ex_qnode_function 2 (Other_annotation ''int'')"
  have p: "qf_params ?f > 1" by (simp add: ex_qnode_function_def)
  have a: "qf_annotation ?f \<notin> set AUTO_EXECUTE"
    by (simp add: ex_qnode_function_def AUTO_EXECUTE_def AUTO_EXECUTE_PROCESSING_def
        AUTO_EXECUTE_NO_PROCESSING_def)
  from not_auto_execute_returns_None [OF p a] obtain mk where
    mk: "qnode_transform (QNode_function ?f) = Inr (QNode_decorator_factory mk)"
    and al: "\<forall>targs qn. \<exists>w. mk targs (QNode_object qn) = Inr w \<and>
         (\<forall>args q s.
            call w args q s =
              (case construct q args s of
                 (Inl e, s1) \<Rightarrow> (Inl e, q, s1)
               | (Inr q1, s1) \<Rightarrow> (Inr PNone, q1, s1))
            \<and> executed (snd (snd (call w args q s))) = executed s)"
    by blast
  from al obtain w where
    w: "mk [3] (QNode_object ex_qnode) = Inr w"
    and c: "call w [] ex_qnode ex_idle =
              (case construct ex_qnode [] ex_idle of
                 (Inl e, s1) \<Rightarrow> (Inl e, ex_qnode, s1)
               | (Inr q1, s1) \<Rightarrow> (Inr PNone, q1, s1))"
    and e: "executed (snd (snd (call w [] ex_qnode ex_idle))) = executed ex_idle"
    by blast
  have v: "fst (case construct ex_qnode [] ex_idle of
                 (Inl e, s1) \<Rightarrow> (Inl e, ex_qnode, s1)
               | (Inr q1, s1) \<Rightarrow> (Inr PNone, q1, s1)) = Inr PNone"
    by (simp add: ex_qnode_function_def ex_qnode_body_def ex_qnode_def ex_device_def ex_qfunc_def ex_idle_def
      ex_input_def decorate_def call_decorated_def qnode_transform_def signature_def
      qnode_wrapper_def internal_wrapper_many_def internal_wrapper_one_def
      auto_execute_of_def post_process_of_def is_single_tape_transform_def
      AUTO_EXECUTE_def AUTO_EXECUTE_PROCESSING_def AUTO_EXECUTE_NO_PROCESSING_def
      module_names_def construct_def new_tape_def with_tape_def tape_enter_def tape_exit_def
      process_queue_def super_process_queue_def QueuingContext_append_def
      call_transform_def tape_argument_def strip_none_def unpack_pair_def execute_all_def
      execute_def apply_fn_def is_sequence_def Let_def)
  have i: "executed ex_idle = []" by (simp add: ex_idle_def)
  show ?thesis using p a mk w c e v i by auto
qed

section \<open>Automatic execution without post-processing\<close>

text \<open>
  The name \<^verbatim>\<open>Sequence\<close> is not bound in the module, so a call of the decorated QNode on
  the path for automatic execution without post-processing never returns a value: it ends
  with an error of the construction, of the transform, of the test for the tuple, or with
  the \<^verbatim>\<open>NameError\<close>.
\<close>

lemma Sequence_unbound: "''Sequence'' \<notin> set module_names"
  by (simp add: module_names_def)

lemma internal_wrapper_many_no_processing_fails:
  "fst (internal_wrapper_many f True False targs args qn s) \<noteq> Inr v"
  using Sequence_unbound
  by (simp add: internal_wrapper_many_def split: prod.splits sum.splits)

text \<open>
  Claim C5 says that on this path the returned tapes are normalised into a list, executed
  on the device of the QNode, and the list of results returned. At the example function with
  two parameters and the return annotation of a tape, which returns one tape, the call of
  the decorated QNode raises the \<^verbatim>\<open>NameError\<close> and no tape is executed.
\<close>

theorem auto_execute_without_processing_raises:
  "auto_execute_of (QNode_function (ex_qnode_function 2 QuantumTape_annotation)) QuantumTape_annotation
   \<and> \<not> post_process_of (QNode_function (ex_qnode_function 2 QuantumTape_annotation))
         QuantumTape_annotation
   \<and> fst (call_decorated
            (decorate (qnode_transform (QNode_function (ex_qnode_function 2 QuantumTape_annotation)))
               [3] (QNode_object ex_qnode))
            [] ex_qnode ex_idle) = Inl (NameError ''Sequence'')
   \<and> executed (snd (snd (call_decorated
            (decorate (qnode_transform (QNode_function (ex_qnode_function 2 QuantumTape_annotation)))
               [3] (QNode_object ex_qnode))
            [] ex_qnode ex_idle))) = []"
  by (simp add: ex_qnode_function_def ex_qnode_body_def ex_qnode_def ex_device_def ex_qfunc_def ex_idle_def
      ex_input_def decorate_def call_decorated_def qnode_transform_def signature_def
      qnode_wrapper_def internal_wrapper_many_def internal_wrapper_one_def
      auto_execute_of_def post_process_of_def is_single_tape_transform_def
      AUTO_EXECUTE_def AUTO_EXECUTE_PROCESSING_def AUTO_EXECUTE_NO_PROCESSING_def
      module_names_def construct_def new_tape_def with_tape_def tape_enter_def tape_exit_def
      process_queue_def super_process_queue_def QueuingContext_append_def
      call_transform_def tape_argument_def strip_none_def unpack_pair_def execute_all_def
      execute_def apply_fn_def is_sequence_def Let_def)

section \<open>The classification of QNode transforms\<close>








end
